theory Spec2Isabelle
  imports Main "HOL-Library.Word"
begin

section \<open>The OAuth anchor endpoint\<close>

text \<open>
  The endpoint \<^verbatim>\<open>GET\<close> of \<^verbatim>\<open>pages/[...locale]/drifter/anchor/[platform].ts\<close> is embedded
  as a function on an explicit world: the cookie jar, the account table and a trace of
  the effects performed so far. Random draws, the clock and the per-platform OAuth
  client are inputs.
\<close>

subsection \<open>JavaScript values\<close>

text \<open>
  \<^verbatim>\<open>url.searchParams.get\<close> yields a string or \<^verbatim>\<open>null\<close>; a query parameter is a
  \<open>string option\<close> with \<open>None\<close> for \<^verbatim>\<open>null\<close>. The test \<^verbatim>\<open>if (code)\<close> is
  JavaScript truthiness: \<^verbatim>\<open>null\<close> and the empty string are both falsy.
\<close>

definition truthy :: "string option \<Rightarrow> bool" where
  "truthy v = (case v of None \<Rightarrow> False | Some s \<Rightarrow> s \<noteq> [])"

text \<open>
  The comparison \<^verbatim>\<open>escort?.state !== state\<close> is strict: \<^verbatim>\<open>undefined\<close> (no token, or
  a token without the field) differs from \<^verbatim>\<open>null\<close> (no query parameter).
\<close>

datatype jsval = Undefined | Null | Str string

definition param :: "string option \<Rightarrow> jsval" where
  "param v = (case v of None \<Rightarrow> Null | Some s \<Rightarrow> Str s)"

definition field :: "string option \<Rightarrow> jsval" where
  "field v = (case v of None \<Rightarrow> Undefined | Some s \<Rightarrow> Str s)"

subsection \<open>Token store\<close>

text \<open>
  A token payload is a JavaScript object; each property the endpoint touches is an
  optional field (\<open>None\<close>: the property is missing).
\<close>

record payload =
  state :: "string option"
  code_verifier :: "string option"
  referrer :: "string option"
  visa :: "string option"

text \<open>
  A cookie is either a token sealed by this server, with its payload and the time (in
  seconds) at which it expires, if any, or a value that fails verification.
\<close>

datatype cookie = Sealed payload "nat option" | Garbled

text \<open>
  The effects the endpoint performs, recorded in order: revoking and issuing a cookie,
  the exchange with the provider (platform, code, code verifier) and the write to the
  account table (platform and account of the row written).
\<close>

datatype event =
    Revoke string
  | Issue string payload "nat option"
  | Exchange string string "string option"
  | Upsert string string

subsection \<open>Accounts\<close>

text \<open>
  \<^verbatim>\<open>OAuthAccount\<close> is what the provider exchange returns, with the fields the endpoint
  reads; a row of the \<^verbatim>\<open>Drifter\<close> table has the columns the endpoint writes: the same
  ones and the local \<^verbatim>\<open>ID\<close>. A \<^verbatim>\<open>Date\<close> is its \<^verbatim>\<open>getTime()\<close>, milliseconds as an
  integer, so that \<^verbatim>\<open>user.expire?.getTime()\<close> is the field itself. The column
  \<^verbatim>\<open>image\<close> is named \<open>image'\<close>.
\<close>

record OAuthAccount =
  platform :: string
  account :: string
  refresh :: "string option"
  access :: "string option"
  expire :: "int option"
  handle :: "string option"
  name :: "string option"
  description :: "string option"
  image' :: "string option"

record Drifter = OAuthAccount +
  ID :: string

text \<open>
  \<^verbatim>\<open>db.insert(Drifter).values(row).onConflictDoUpdate({target: [platform, account],
  set: {access, expire, handle, name, description, image}}).returning({ID})\<close>:
  the table is a list of rows; the row that conflicts on the target takes the six
  columns of the proposed row (\<^verbatim>\<open>excluded\<close>), otherwise the proposed row is appended.
  The affected row is returned.
\<close>

fun upsert :: "Drifter list \<Rightarrow> Drifter \<Rightarrow> Drifter list \<times> Drifter" where
  "upsert [] excluded = ([excluded], excluded)"
| "upsert (r # rs) excluded =
     (if platform r = platform excluded \<and> account r = account excluded
      then (let r' = r\<lparr>access := access excluded, expire := expire excluded,
                        handle := handle excluded, name := name excluded,
                        description := description excluded, image' := image' excluded\<rparr>
            in (r' # rs, r'))
      else (let (rs', hit) = upsert rs excluded in (r # rs', hit)))"

subsection \<open>World, request, response\<close>

text \<open>
  The world is the state of the \<^verbatim>\<open>cookies\<close> object and of the table, with the trace.
  The endpoint returns the world as it leaves it, whether it answers or throws.
\<close>

record world =
  jar :: "string \<rightharpoonup> cookie"
  db :: "Drifter list"
  trace :: "event list"

text \<open>
  What the endpoint reads of a request: \<^verbatim>\<open>params.platform\<close>, the query parameters
  \<^verbatim>\<open>code\<close>, \<^verbatim>\<open>state\<close> and \<^verbatim>\<open>error\<close>, and the \<^verbatim>\<open>referer\<close> header.
\<close>

record request =
  r_platform :: string
  r_code :: "string option"
  r_state :: "string option"
  r_error :: "string option"
  r_referer :: "string option"

record response =
  status :: nat
  body :: string
  location :: "string option"

text \<open>
  The endpoint answers with a response or throws: the constructor of the OAuth client
  rejects the platform, the provider refuses the exchange, or a property of \<^verbatim>\<open>null\<close>
  is read.
\<close>

datatype exn = UnsupportedPlatform | ExchangeFailed | TypeError

datatype outcome = Responded response | Threw exn

definition Response :: "string \<Rightarrow> nat \<Rightarrow> response" where
  "Response b st = \<lparr>status = st, body = b, location = None\<rparr>"

definition redirect :: "string \<Rightarrow> nat \<Rightarrow> response" where
  "redirect path st = \<lparr>status = st, body = [], location = Some path\<rparr>"

text \<open>
  Modelled from the spec: \<^verbatim>\<open>Token.check\<close> of the module \<^verbatim>\<open>$utils/token\<close>, which is
  not among the sources. It reads the named cookie and returns the decoded payload, or
  no value if the cookie is absent, malformed, invalid or expired; it never throws.
\<close>

definition Token_check :: "nat \<Rightarrow> string \<Rightarrow> world \<Rightarrow> payload option" where
  "Token_check now nm w =
     (case jar w nm of
        None \<Rightarrow> None
      | Some Garbled \<Rightarrow> None
      | Some (Sealed p None) \<Rightarrow> Some p
      | Some (Sealed p (Some t)) \<Rightarrow> (if now < t then Some p else None))"

text \<open>
  Modelled from the spec: \<^verbatim>\<open>Token.revoke\<close> of the module \<^verbatim>\<open>$utils/token\<close>, which is
  not among the sources. It deletes the named cookie at once.
\<close>

definition Token_revoke :: "string \<Rightarrow> world \<Rightarrow> world" where
  "Token_revoke nm w = w\<lparr>jar := (jar w)(nm := None), trace := trace w @ [Revoke nm]\<rparr>"

text \<open>
  Modelled from the spec: \<^verbatim>\<open>Token.issue\<close> of the module \<^verbatim>\<open>$utils/token\<close>, which is
  not among the sources. It seals the payload into the named cookie, overwriting one of
  the same name; with a time-to-live (in seconds here) the cookie expires after that
  duration, without one it does not expire.
\<close>

definition Token_issue :: "nat \<Rightarrow> string \<Rightarrow> payload \<Rightarrow> nat option \<Rightarrow> world \<Rightarrow> world" where
  "Token_issue now nm p ttl w =
     w\<lparr>jar := (jar w)(nm \<mapsto> Sealed p (map_option (\<lambda>d. now + d) ttl)),
       trace := trace w @ [Issue nm p ttl]\<rparr>"

text \<open>The time-to-live \<^verbatim>\<open>"5 minutes"\<close>, in seconds.\<close>

definition five_minutes :: nat where
  "five_minutes = 5 * 60"

text \<open>
  Modelled from the spec: the class \<^verbatim>\<open>OAuth\<close> of the module \<^verbatim>\<open>$utils/oauth\<close>, which is
  not among the sources. A client offers the two capabilities the endpoint calls:
  \<open>URL\<close> builds the authorization URL from a state and a code verifier, \<open>validate\<close>
  exchanges a code and a code verifier for the account, and yields no account when the
  provider refuses the exchange (the call throws). The constructor
  \<^verbatim>\<open>new OAuth(platform)\<close> is the parameter \<open>OAuth\<close> of the endpoint: it yields no client
  for an unsupported platform (the constructor throws, which rejects the request).
\<close>

record client =
  URL :: "string \<Rightarrow> string \<Rightarrow> string"
  validate :: "string \<Rightarrow> string option \<Rightarrow> OAuthAccount option"

text \<open>The values drawn by \<^verbatim>\<open>generateState()\<close>, \<^verbatim>\<open>generateCodeVerifier()\<close>, \<^verbatim>\<open>random(16)\<close>.\<close>

record draws =
  generateState :: string
  generateCodeVerifier :: string
  random16 :: string

subsection \<open>The endpoint\<close>

text \<open>
  The three branches in the order of the source: \<^verbatim>\<open>if (code)\<close>,
  \<^verbatim>\<open>else if (error_status)\<close>, \<^verbatim>\<open>else\<close>, after the escort token has been read
  and revoked. \<open>code_s\<close> is the string handed to \<^verbatim>\<open>validate\<close>, which a truthy
  \<^verbatim>\<open>code\<close> is. Reading \<^verbatim>\<open>escort.code_verifier\<close> of a missing token would throw a
  \<^verbatim>\<open>TypeError\<close>; the state check before it leaves no such case.
\<close>

definition GET ::
  "(string \<Rightarrow> client option) \<Rightarrow> draws \<Rightarrow> nat \<Rightarrow> request \<Rightarrow> world \<Rightarrow> outcome \<times> world" where
  "GET OAuth rnd now req w0 =
    (let code = r_code req; state_q = r_state req; error_status = r_error req;
         code_s = (case code of None \<Rightarrow> [] | Some c \<Rightarrow> c);
         escort = Token_check now ''escort'' w0;
         w = Token_revoke ''escort'' w0
     in
     if truthy code then
       (if field (case escort of None \<Rightarrow> None | Some e \<Rightarrow> state e) \<noteq> param state_q
        then (Responded (Response ''Unauthorized'' 401), w)
        else
          (case escort of
             None \<Rightarrow> (Threw TypeError, w)
           | Some e \<Rightarrow>
          (case OAuth (r_platform req) of
             None \<Rightarrow> (Threw UnsupportedPlatform, w)
           | Some cl \<Rightarrow>
          (let w1 = w\<lparr>trace := trace w @ [Exchange (r_platform req) code_s (code_verifier e)]\<rparr>
           in
          (case validate cl code_s (code_verifier e) of
             None \<Rightarrow> (Threw ExchangeFailed, w1)
           | Some user \<Rightarrow>
          (let (rows, drifter) = upsert (db w1)
                 \<lparr>platform = platform user, account = account user,
                  refresh = refresh user, access = access user,
                  expire = expire user, handle = handle user,
                  name = name user, description = description user,
                  image' = image' user, ID = random16 rnd\<rparr>;
               w2 = w1\<lparr>db := rows, trace := trace w1 @ [Upsert (platform user) (account user)]\<rparr>;
               w3 = Token_issue now ''passport''
                      \<lparr>state = None, code_verifier = None, referrer = None,
                       visa = Some (ID drifter)\<rparr> None w2
           in (Responded (redirect (case referrer e of None \<Rightarrow> ''/'' | Some r \<Rightarrow> r) 302), w3)))))))
     else if truthy error_status then
       (if error_status = Some ''access_denied'' then
          (Responded (redirect (case (case escort of None \<Rightarrow> None | Some e \<Rightarrow> referrer e) of
                                  None \<Rightarrow> ''/'' | Some r \<Rightarrow> r) 302), w)
        else if error_status = Some ''redirect_uri_mismatch''
              \<or> error_status = Some ''application_suspended'' then
          (Responded (Response ''Internal Server Error'' 500), w)
        else (Responded (Response ''Unauthorized'' 401), w))
     else
       (let state_n = generateState rnd;
            code_verifier_n = generateCodeVerifier rnd;
            w1 = Token_issue now ''escort''
                   \<lparr>state = Some state_n, code_verifier = Some code_verifier_n,
                    referrer = Some (case r_referer req of None \<Rightarrow> ''/'' | Some r \<Rightarrow> r),
                    visa = None\<rparr> (Some five_minutes) w
        in (case OAuth (r_platform req) of
              None \<Rightarrow> (Threw UnsupportedPlatform, w1)
            | Some cl \<Rightarrow> (Responded (redirect (URL cl state_n code_verifier_n) 302), w1))))"

subsection \<open>A sample environment\<close>

text \<open>
  One provider, one account, fixed draws: the concrete inputs at which the theorems
  below are instantiated. The sample client accepts the code \<open>''good''\<close> together with
  the verifier it was given at initiation.
\<close>

definition sample_user :: OAuthAccount where
  "sample_user =
     \<lparr>platform = ''github'', account = ''4711'', refresh = None, access = Some ''tok2'',
      expire = Some 1700000000000, handle = Some ''ada'', name = Some ''Ada'',
      description = None, image' = Some ''https://img.example/ada.png''\<rparr>"

definition sample_client :: client where
  "sample_client =
     \<lparr>URL = (\<lambda>s v. ''https://provider.example/authorize?state='' @ s @ ''&challenge='' @ v),
      validate = (\<lambda>c v. if c = ''good'' \<and> v = Some ''v1'' then Some sample_user else None)\<rparr>"

definition sample_OAuth :: "string \<Rightarrow> client option" where
  "sample_OAuth p = (if p = ''github'' then Some sample_client else None)"

definition sample_draws :: draws where
  "sample_draws = \<lparr>generateState = ''s1'', generateCodeVerifier = ''v1'', random16 = ''id-new''\<rparr>"

definition sample_escort :: payload where
  "sample_escort =
     \<lparr>state = Some ''s1'', code_verifier = Some ''v1'', referrer = Some ''/notes'', visa = None\<rparr>"

definition sample_row :: Drifter where
  "sample_row =
     \<lparr>platform = ''github'', account = ''4711'', refresh = Some ''r0'', access = Some ''tok1'',
      expire = None, handle = Some ''ada_old'', name = None, description = Some ''hi'',
      image' = None, ID = ''id-old''\<rparr>"

definition other_row :: Drifter where
  "other_row =
     \<lparr>platform = ''google'', account = ''4711'', refresh = None, access = Some ''g'',
      expire = None, handle = None, name = Some ''Bob'', description = None,
      image' = None, ID = ''id-bob''\<rparr>"

definition fresh_world :: world where
  "fresh_world = \<lparr>jar = Map.empty, db = [], trace = []\<rparr>"

definition escorted_world :: "Drifter list \<Rightarrow> world" where
  "escorted_world rows =
     \<lparr>jar = [''escort'' \<mapsto> Sealed sample_escort (Some 1300)], db = rows, trace = []\<rparr>"

definition sample_request :: request where
  "sample_request =
     \<lparr>r_platform = ''github'', r_code = None, r_state = None, r_error = None,
      r_referer = Some ''/notes''\<rparr>"

definition callback_request :: request where
  "callback_request = sample_request\<lparr>r_code := Some ''good'', r_state := Some ''s1''\<rparr>"

definition forged_request :: request where
  "forged_request = sample_request\<lparr>r_code := Some ''good'', r_state := Some ''zzz''\<rparr>"

definition empty_code_request :: request where
  "empty_code_request = sample_request\<lparr>r_code := Some [], r_state := Some ''zzz''\<rparr>"

section \<open>The rehype figure plugin\<close>

subsection \<open>Strings and trees\<close>

text \<open>
  A JavaScript string is the list of its UTF-16 code units. \<open>js\<close> writes a string of
  ASCII characters.
\<close>

type_synonym jstring = "16 word list"


text \<open>
  A hast tree: the root holds a list of nodes; an element has a tag name, properties
  and children. A property value is a string, a number, a boolean or an array of
  strings and numbers; a property that is \<^verbatim>\<open>null\<close> or \<^verbatim>\<open>undefined\<close> is a missing
  key. The numbers are a type parameter \<open>'n\<close>.
\<close>

datatype 'n item = IStr jstring | INum 'n

datatype 'n propval = PStr jstring | PNum 'n | PBool bool | PList "'n item list"

datatype 'n node =
    Element jstring "(jstring \<times> 'n propval) list" "'n node list"
  | Text jstring
  | Comment jstring



subsection \<open>What the plugin takes from outside\<close>

text \<open>
  The plugin relies on the language for the truth value and the string of a number
  (\<^verbatim>\<open>!value\<close>, \<^verbatim>\<open>String(value)\<close>), and on the library hastscript for the element
  that \<^verbatim>\<open>h(tagName, properties)\<close> builds: hastscript looks each property name up in its
  schema and parses each value by the kind of the property, so the element need not
  carry the properties as they were given. The three are parameters.
\<close>

record 'n runtime =
  number_truthy :: "'n \<Rightarrow> bool"
  number_String :: "'n \<Rightarrow> jstring"
  h_element :: "jstring \<Rightarrow> (jstring \<times> 'n propval) list \<Rightarrow> 'n node"





text \<open>
  \<^verbatim>\<open>value.trim() === ""\<close>: every code unit is white space or a line terminator of the
  language: TAB, LF, VT, FF, CR, SPACE, U+00A0, U+1680, U+2000 to U+200A, U+2028,
  U+2029, U+202F, U+205F, U+3000 and U+FEFF.
\<close>

definition is_space :: "16 word \<Rightarrow> bool" where
  "is_space c =
     (c \<in> set [0x0009, 0x000A, 0x000B, 0x000C, 0x000D, 0x0020, 0x00A0, 0x1680,
               0x2000, 0x2001, 0x2002, 0x2003, 0x2004, 0x2005, 0x2006, 0x2007, 0x2008,
               0x2009, 0x200A, 0x2028, 0x2029, 0x202F, 0x205F, 0x3000, 0xFEFF])"

fun blank :: "'n node \<Rightarrow> bool" where
  "blank (Text v) = list_all is_space v"
| "blank _ = False"

text \<open>
  The two forms of the call of hastscript's \<^verbatim>\<open>h\<close> in the plugin: with an object of
  properties, \<^verbatim>\<open>h(tagName, properties)\<close>, the element is the one hastscript builds
  from them; with an array of nodes, \<^verbatim>\<open>h(tagName, children)\<close>, the element has the
  tag, no properties and those children.
\<close>

datatype 'n h_argument = Properties "(jstring \<times> 'n propval) list" | Children "'n node list"

fun h :: "'n runtime \<Rightarrow> jstring \<Rightarrow> 'n h_argument \<Rightarrow> 'n node" where
  "h rt tag (Properties ps) = h_element rt tag ps"
| "h rt tag (Children cs) = Element tag [] cs"

subsection \<open>The plugin\<close>




subsection \<open>What the plugin does, stated on the tree\<close>





subsection \<open>Sample trees\<close>

text \<open>
  A runtime for the instances below. Its numbers are 0 and 1. The images of the
  instances carry a string-valued \<^verbatim>\<open>src\<close> and \<^verbatim>\<open>alt\<close> and nothing else; from such
  properties hastscript builds the element with the tag, these properties and no
  children, which is what this runtime does.
\<close>

datatype sample_number = Num0 | Num1





section \<open>Properties of the endpoint\<close>

lemmas sample_defs =
  sample_user_def sample_client_def sample_OAuth_def sample_draws_def sample_escort_def
  sample_row_def other_row_def fresh_world_def escorted_world_def sample_request_def
  callback_request_def forged_request_def empty_code_request_def

lemmas GET_eval =
  GET_def Let_def truthy_def field_def param_def Token_check_def Token_revoke_def
  Token_issue_def Response_def redirect_def five_minutes_def

subsection \<open>The token store\<close>

lemma Token_check_absent: "jar w nm = None \<Longrightarrow> Token_check now nm w = None"
  by (simp add: Token_check_def)

lemma Token_check_garbled: "jar w nm = Some Garbled \<Longrightarrow> Token_check now nm w = None"
  by (simp add: Token_check_def)

lemma Token_check_expired:
  "jar w nm = Some (Sealed p (Some t)) \<Longrightarrow> t \<le> now \<Longrightarrow> Token_check now nm w = None"
  by (simp add: Token_check_def)

lemma Token_check_revoke: "Token_check now nm (Token_revoke nm w) = None"
  by (simp add: Token_check_def Token_revoke_def)

lemma Token_check_issue:
  "Token_check t nm (Token_issue now nm p ttl w) =
     (case ttl of None \<Rightarrow> Some p | Some d \<Rightarrow> if t < now + d then Some p else None)"
  by (simp add: Token_check_def Token_issue_def split: option.splits)

text \<open>The strict comparison holds exactly when both sides are the same string.\<close>

lemma field_param: "field a = param b \<longleftrightarrow> (\<exists>s. a = Some s \<and> b = Some s)"
  by (auto simp: field_def param_def split: option.splits)

subsection \<open>The state check\<close>

lemma GET_mismatch:
  assumes "truthy (r_code req)"
    and "field (case Token_check now ''escort'' w of None \<Rightarrow> None | Some e \<Rightarrow> state e)
         \<noteq> param (r_state req)"
  shows "GET OAuth rnd now req w =
           (Responded (Response ''Unauthorized'' 401), Token_revoke ''escort'' w)"
  using assms unfolding GET_def Let_def by simp

text \<open>
  Claim C1, for a \<^verbatim>\<open>code\<close> parameter that is not empty. When the escort cookie is
  absent, fails verification or has expired, or holds a \<^verbatim>\<open>state\<close> that is not the
  \<^verbatim>\<open>state\<close> query parameter, the response is 401 Unauthorized, the account table is
  unchanged, and the only effect is the revocation of the escort cookie: no provider
  exchange and no database write.
\<close>

theorem csrf_mismatch_unauthorized:
  assumes "truthy (r_code req)"
    and "jar w ''escort'' = None \<or> jar w ''escort'' = Some Garbled
       \<or> (\<exists>p t. jar w ''escort'' = Some (Sealed p (Some t)) \<and> t \<le> now)
       \<or> (\<exists>p exp. jar w ''escort'' = Some (Sealed p exp)
             \<and> field (state p) \<noteq> param (r_state req))"
  shows "fst (GET OAuth rnd now req w) = Responded (Response ''Unauthorized'' 401)
       \<and> db (snd (GET OAuth rnd now req w)) = db w
       \<and> jar (snd (GET OAuth rnd now req w)) = (jar w)(''escort'' := None)
       \<and> trace (snd (GET OAuth rnd now req w)) = trace w @ [Revoke ''escort'']"
proof -
  have "field (case Token_check now ''escort'' w of None \<Rightarrow> None | Some e \<Rightarrow> state e)
        \<noteq> param (r_state req)"
    using assms(2)
    by (auto simp: Token_check_def field_param split: option.splits cookie.splits)
  from GET_mismatch [OF assms(1) this] show ?thesis
    by (simp add: Token_revoke_def)
qed

theorem csrf_mismatch_unauthorized_witness:
  "truthy (r_code forged_request)
   \<and> jar (escorted_world [sample_row]) ''escort'' = Some (Sealed sample_escort (Some 1300))
   \<and> field (state sample_escort) \<noteq> param (r_state forged_request)
   \<and> fst (GET sample_OAuth sample_draws 1100 forged_request (escorted_world [sample_row]))
       = Responded (Response ''Unauthorized'' 401)
   \<and> db (snd (GET sample_OAuth sample_draws 1100 forged_request (escorted_world [sample_row])))
       = [sample_row]
   \<and> trace (snd (GET sample_OAuth sample_draws 1100 forged_request (escorted_world [sample_row])))
       = [Revoke ''escort'']"
proof -
  have t: "truthy (r_code forged_request)"
    by (simp add: forged_request_def sample_request_def truthy_def)
  have j: "jar (escorted_world [sample_row]) ''escort'' = Some (Sealed sample_escort (Some 1300))"
    by (simp add: escorted_world_def)
  have m: "field (state sample_escort) \<noteq> param (r_state forged_request)"
    by (simp add: forged_request_def sample_request_def sample_escort_def field_def param_def)
  from j m have h: "jar (escorted_world [sample_row]) ''escort'' = None
       \<or> jar (escorted_world [sample_row]) ''escort'' = Some Garbled
       \<or> (\<exists>p t. jar (escorted_world [sample_row]) ''escort'' = Some (Sealed p (Some t))
             \<and> t \<le> 1100)
       \<or> (\<exists>p exp. jar (escorted_world [sample_row]) ''escort'' = Some (Sealed p exp)
             \<and> field (state p) \<noteq> param (r_state forged_request))"
    by blast
  from csrf_mismatch_unauthorized [OF t h, of sample_OAuth sample_draws] t j m show ?thesis
    by (simp add: escorted_world_def)
qed

text \<open>
  A request \<^verbatim>\<open>?code=&state=zzz\<close> carries a \<^verbatim>\<open>code\<close> parameter, and no escort cookie
  matches its \<^verbatim>\<open>state\<close>; the empty code is falsy, the initiate branch runs and the
  response is a 302 redirect to the provider.
\<close>

theorem empty_code_not_unauthorized:
  "r_code empty_code_request = Some []
   \<and> jar fresh_world ''escort'' = None
   \<and> fst (GET sample_OAuth sample_draws 1000 empty_code_request fresh_world)
       = Responded (redirect ''https://provider.example/authorize?state=s1&challenge=v1'' 302)
   \<and> fst (GET sample_OAuth sample_draws 1000 empty_code_request fresh_world)
       \<noteq> Responded (Response ''Unauthorized'' 401)"
  by (simp add: GET_eval sample_defs)

subsection \<open>The account table\<close>

lemma upsert_new:
  "\<forall>r \<in> set rows. \<not> (platform r = platform x \<and> account r = account x) \<Longrightarrow>
     upsert rows x = (rows @ [x], x)"
  by (induction rows) auto

lemma upsert_hit:
  "snd (upsert rows x) \<in> set (fst (upsert rows x))
   \<and> platform (snd (upsert rows x)) = platform x \<and> account (snd (upsert rows x)) = account x"
  by (induction rows) (auto simp: Let_def case_prod_beta)

lemma unique_key:
  assumes "distinct (map (\<lambda>r. (platform r, account r)) (q # rows))" and "r \<in> set rows"
  shows "platform r \<noteq> platform q \<or> account r \<noteq> account q"
proof -
  from assms(1) have "(platform q, account q) \<notin> (\<lambda>r. (platform r, account r)) ` set rows"
    by simp
  with assms(2) have "(platform r, account r) \<noteq> (platform q, account q)"
    by (metis (mono_tags, lifting) image_eqI)
  then show ?thesis by simp
qed

lemma upsert_existing:
  assumes "distinct (map (\<lambda>r. (platform r, account r)) rows)"
    and "\<exists>r \<in> set rows. platform r = platform x \<and> account r = account x"
  shows "fst (upsert rows x) =
     map (\<lambda>r. if platform r = platform x \<and> account r = account x
               then r\<lparr>access := access x, expire := expire x, handle := handle x,
                      name := name x, description := description x, image' := image' x\<rparr>
               else r) rows"
  using assms
proof (induction rows)
  case Nil
  then show ?case by simp
next
  case (Cons q rows)
  show ?case
  proof (cases "platform q = platform x \<and> account q = account x")
    case True
    have "\<forall>r \<in> set rows. \<not> (platform r = platform x \<and> account r = account x)"
      using unique_key [OF Cons.prems(1)] True by auto
    then have "map (\<lambda>r. if platform r = platform x \<and> account r = account x
               then r\<lparr>access := access x, expire := expire x, handle := handle x,
                      name := name x, description := description x, image' := image' x\<rparr>
               else r) rows = rows"
      by (induction rows) auto
    with True show ?thesis by (simp add: Let_def)
  next
    case False
    with Cons.prems have "\<exists>r \<in> set rows. platform r = platform x \<and> account r = account x"
      and "distinct (map (\<lambda>r. (platform r, account r)) rows)"
      by auto
    then have "fst (upsert rows x) =
       map (\<lambda>r. if platform r = platform x \<and> account r = account x
               then r\<lparr>access := access x, expire := expire x, handle := handle x,
                      name := name x, description := description x, image' := image' x\<rparr>
               else r) rows"
      by (rule Cons.IH [rotated])
    with False show ?thesis by (auto simp: Let_def case_prod_beta)
  qed
qed

text \<open>The pair \<open>(platform, account)\<close> stays unique.\<close>

lemma upsert_keeps_unique:
  assumes "distinct (map (\<lambda>r. (platform r, account r)) rows)"
  shows "distinct (map (\<lambda>r. (platform r, account r)) (fst (upsert rows x)))"
proof (cases "\<exists>r \<in> set rows. platform r = platform x \<and> account r = account x")
  case True
  have "map (\<lambda>r. (platform r, account r)) (fst (upsert rows x))
        = map (\<lambda>r. (platform r, account r)) rows"
    unfolding upsert_existing [OF assms True] by (induction rows) auto
  with assms show ?thesis by simp
next
  case False
  then have "\<forall>r \<in> set rows. \<not> (platform r = platform x \<and> account r = account x)"
    by simp
  from upsert_new [OF this] assms False show ?thesis by auto
qed

subsection \<open>The three branches\<close>

lemma GET_success:
  assumes "r_code req = Some c" "c \<noteq> []"
    and "Token_check now ''escort'' w = Some e" "state e = Some s" "r_state req = Some s"
    and "OAuth (r_platform req) = Some cl"
    and "validate cl c (code_verifier e) = Some user"
    and "upsert (db w) \<lparr>platform = platform user, account = account user,
                  refresh = refresh user, access = access user,
                  expire = expire user, handle = handle user,
                  name = name user, description = description user,
                  image' = image' user, ID = random16 rnd\<rparr> = (rows, drifter)"
  shows "GET OAuth rnd now req w =
     (Responded (redirect (case referrer e of None \<Rightarrow> ''/'' | Some r \<Rightarrow> r) 302),
      \<lparr>jar = (jar w)(''escort'' := None,
                      ''passport'' \<mapsto> Sealed \<lparr>state = None, code_verifier = None, referrer = None,
                                             visa = Some (ID drifter)\<rparr> None),
       db = rows,
       trace = trace w @ [Revoke ''escort'', Exchange (r_platform req) c (code_verifier e),
                          Upsert (platform user) (account user),
                          Issue ''passport'' \<lparr>state = None, code_verifier = None, referrer = None,
                                             visa = Some (ID drifter)\<rparr> None]\<rparr>)"
  using assms unfolding GET_def Let_def
  by (simp add: truthy_def Token_revoke_def Token_issue_def field_param)

lemma GET_error:
  assumes "\<not> truthy (r_code req)" "truthy (r_error req)"
  shows "GET OAuth rnd now req w =
     (if r_error req = Some ''access_denied'' then
        Responded (redirect (case Token_check now ''escort'' w of
                               None \<Rightarrow> ''/''
                             | Some e \<Rightarrow> (case referrer e of None \<Rightarrow> ''/'' | Some r \<Rightarrow> r)) 302)
      else if r_error req = Some ''redirect_uri_mismatch''
            \<or> r_error req = Some ''application_suspended''
      then Responded (Response ''Internal Server Error'' 500)
      else Responded (Response ''Unauthorized'' 401),
      Token_revoke ''escort'' w)"
  using assms unfolding GET_def Let_def
  by (simp split: option.splits)

lemma GET_initiate:
  assumes "\<not> truthy (r_code req)" "\<not> truthy (r_error req)"
  shows "GET OAuth rnd now req w =
     (case OAuth (r_platform req) of
        None \<Rightarrow> Threw UnsupportedPlatform
      | Some cl \<Rightarrow> Responded (redirect (URL cl (generateState rnd) (generateCodeVerifier rnd)) 302),
      Token_issue now ''escort''
        \<lparr>state = Some (generateState rnd), code_verifier = Some (generateCodeVerifier rnd),
         referrer = Some (case r_referer req of None \<Rightarrow> ''/'' | Some r \<Rightarrow> r), visa = None\<rparr>
        (Some five_minutes) (Token_revoke ''escort'' w))"
  using assms unfolding GET_def Let_def
  by (simp split: option.splits)

lemma GET_callback_jar:
  assumes "truthy (r_code req)"
  shows "jar (snd (GET OAuth rnd now req w)) ''escort'' = None
       \<and> (\<exists>es. trace (snd (GET OAuth rnd now req w)) = trace w @ Revoke ''escort'' # es)"
  using assms unfolding GET_def Let_def
  by (simp add: Token_revoke_def Token_issue_def case_prod_beta split: option.splits)

text \<open>No request reads a property of a missing escort token.\<close>

lemma GET_no_TypeError: "fst (GET OAuth rnd now req w) \<noteq> Threw TypeError"
  unfolding GET_def Let_def
  by (simp add: field_param case_prod_beta split: option.splits)

subsection \<open>Revocation of the escort cookie\<close>

text \<open>
  Claim C2, for parameters that are not empty. After a request with a non-empty
  \<^verbatim>\<open>code\<close> or a non-empty \<^verbatim>\<open>error\<close>, whichever branch ran and whether it answered
  or threw, the escort cookie has been revoked and is absent from the jar, no token
  can be read from it at any later time, and any later request with a non-empty
  \<^verbatim>\<open>code\<close> on that jar is answered 401: the code and state cannot be replayed.
\<close>

theorem callback_revokes_escort:
  assumes "truthy (r_code req) \<or> truthy (r_error req)"
  shows "jar (snd (GET OAuth rnd now req w)) ''escort'' = None
       \<and> Revoke ''escort'' \<in> set (trace (snd (GET OAuth rnd now req w)))
       \<and> Token_check now' ''escort'' (snd (GET OAuth rnd now req w)) = None
       \<and> (truthy (r_code req') \<longrightarrow>
            fst (GET OAuth' rnd' now' req' (snd (GET OAuth rnd now req w)))
              = Responded (Response ''Unauthorized'' 401))"
proof -
  let ?w = "snd (GET OAuth rnd now req w)"
  have j: "jar ?w ''escort'' = None \<and> Revoke ''escort'' \<in> set (trace ?w)"
  proof (cases "truthy (r_code req)")
    case True
    from GET_callback_jar [OF True, of OAuth rnd now w] show ?thesis by auto
  next
    case False
    with assms have "truthy (r_error req)" by simp
    from GET_error [OF False this] show ?thesis by (simp add: Token_revoke_def)
  qed
  then have c: "Token_check now' ''escort'' ?w = None"
    by (simp add: Token_check_absent)
  have r: "fst (GET OAuth' rnd' now' req' ?w) = Responded (Response ''Unauthorized'' 401)"
    if "truthy (r_code req')"
    using GET_mismatch [OF that, of now' ?w OAuth' rnd'] c by (simp add: field_param)
  from j c r show ?thesis by simp
qed

theorem callback_revokes_escort_witness:
  "truthy (r_code callback_request)
   \<and> jar (escorted_world [sample_row]) ''escort'' = Some (Sealed sample_escort (Some 1300))
   \<and> jar (snd (GET sample_OAuth sample_draws 1100 callback_request (escorted_world [sample_row])))
       ''escort'' = None
   \<and> fst (GET sample_OAuth sample_draws 1100 callback_request (escorted_world [sample_row]))
       = Responded (redirect ''/notes'' 302)
   \<and> fst (GET sample_OAuth sample_draws 1101 callback_request
        (snd (GET sample_OAuth sample_draws 1100 callback_request (escorted_world [sample_row]))))
       = Responded (Response ''Unauthorized'' 401)"
proof -
  have t: "truthy (r_code callback_request)"
    by (simp add: callback_request_def sample_request_def truthy_def)
  then have h: "truthy (r_code callback_request) \<or> truthy (r_error callback_request)" ..
  have f: "fst (GET sample_OAuth sample_draws 1100 callback_request (escorted_world [sample_row]))
       = Responded (redirect ''/notes'' 302)"
    by (simp add: GET_eval sample_defs)
  from callback_revokes_escort [OF h, of sample_OAuth sample_draws 1100 "escorted_world [sample_row]"
      1101 callback_request sample_OAuth sample_draws] t f
  show ?thesis by (simp add: escorted_world_def)
qed

text \<open>
  A request \<^verbatim>\<open>?code=&state=zzz\<close> carries a \<^verbatim>\<open>code\<close> parameter; the initiate branch
  runs and the escort cookie is present afterwards.
\<close>

theorem empty_code_keeps_escort:
  "r_code empty_code_request = Some []
   \<and> jar (snd (GET sample_OAuth sample_draws 1000 empty_code_request fresh_world)) ''escort''
       = Some (Sealed \<lparr>state = Some ''s1'', code_verifier = Some ''v1'',
                       referrer = Some ''/notes'', visa = None\<rparr> (Some 1300))"
  by (simp add: GET_eval sample_defs)

subsection \<open>The upsert\<close>

text \<open>
  Claim C3. On a successful callback (non-empty code, matching state, exchange
  accepted), with the pair \<open>(platform, account)\<close> unique in the table: if no row has the
  pair of the returned account, the table gains exactly one row, holding the returned
  values and the drawn id; otherwise the table keeps its rows, the row with that pair
  takes the returned \<^verbatim>\<open>access\<close>, \<^verbatim>\<open>expire\<close>, \<^verbatim>\<open>handle\<close>, \<^verbatim>\<open>name\<close>,
  \<^verbatim>\<open>description\<close> and \<^verbatim>\<open>image\<close> and keeps its \<^verbatim>\<open>ID\<close>, \<^verbatim>\<open>platform\<close>,
  \<^verbatim>\<open>account\<close> and \<^verbatim>\<open>refresh\<close>, and every other row is unchanged.
\<close>

theorem callback_upserts_account:
  assumes "r_code req = Some c" "c \<noteq> []"
    and "Token_check now ''escort'' w = Some e" "state e = Some s" "r_state req = Some s"
    and "OAuth (r_platform req) = Some cl"
    and "validate cl c (code_verifier e) = Some user"
    and "distinct (map (\<lambda>r. (platform r, account r)) (db w))"
  shows "db (snd (GET OAuth rnd now req w)) =
     (if \<exists>r \<in> set (db w). platform r = platform user \<and> account r = account user
      then map (\<lambda>r. if platform r = platform user \<and> account r = account user
                     then r\<lparr>access := access user, expire := expire user,
                            handle := handle user, name := name user,
                            description := description user, image' := image' user\<rparr>
                     else r) (db w)
      else db w @ [\<lparr>platform = platform user, account = account user,
                     refresh = refresh user, access = access user,
                     expire = expire user, handle = handle user,
                     name = name user, description = description user,
                     image' = image' user, ID = random16 rnd\<rparr>])"
proof -
  let ?x = "\<lparr>platform = platform user, account = account user,
                     refresh = refresh user, access = access user,
                     expire = expire user, handle = handle user,
                     name = name user, description = description user,
                     image' = image' user, ID = random16 rnd\<rparr>"
  obtain rows drifter where u: "upsert (db w) ?x = (rows, drifter)"
    by (cases "upsert (db w) ?x")
  from GET_success [where OAuth = OAuth, OF assms(1-7) u] have d: "db (snd (GET OAuth rnd now req w)) = rows"
    by simp
  show ?thesis
  proof (cases "\<exists>r \<in> set (db w). platform r = platform user \<and> account r = account user")
    case True
    then have "\<exists>r \<in> set (db w). platform r = platform ?x \<and> account r = account ?x"
      by simp
    from upsert_existing [OF assms(8) this] u True d show ?thesis by simp
  next
    case False
    then have "\<forall>r \<in> set (db w). \<not> (platform r = platform ?x \<and> account r = account ?x)"
      by simp
    from upsert_new [OF this] u False d show ?thesis by simp
  qed
qed

theorem callback_upserts_account_witness:
  "r_code callback_request = Some ''good''
   \<and> Token_check 1100 ''escort'' (escorted_world [other_row, sample_row]) = Some sample_escort
   \<and> sample_OAuth (r_platform callback_request) = Some sample_client
   \<and> validate sample_client ''good'' (code_verifier sample_escort) = Some sample_user
   \<and> distinct (map (\<lambda>r. (platform r, account r)) [other_row, sample_row])
   \<and> db (snd (GET sample_OAuth sample_draws 1100 callback_request
                (escorted_world [other_row, sample_row])))
       = [other_row,
          \<lparr>platform = ''github'', account = ''4711'', refresh = Some ''r0'',
           access = Some ''tok2'', expire = Some 1700000000000, handle = Some ''ada'',
           name = Some ''Ada'', description = None,
           image' = Some ''https://img.example/ada.png'', ID = ''id-old''\<rparr>]"
proof -
  have 1: "r_code callback_request = Some ''good''"
    by (simp add: callback_request_def sample_request_def)
  have 2: "''good'' \<noteq> []" by simp
  have 3: "Token_check 1100 ''escort'' (escorted_world [other_row, sample_row]) = Some sample_escort"
    by (simp add: Token_check_def escorted_world_def)
  have 4: "state sample_escort = Some ''s1''" by (simp add: sample_escort_def)
  have 5: "r_state callback_request = Some ''s1''"
    by (simp add: callback_request_def sample_request_def)
  have 6: "sample_OAuth (r_platform callback_request) = Some sample_client"
    by (simp add: callback_request_def sample_request_def sample_OAuth_def)
  have 7: "validate sample_client ''good'' (code_verifier sample_escort) = Some sample_user"
    by (simp add: sample_client_def sample_escort_def)
  have 8: "distinct (map (\<lambda>r. (platform r, account r)) (db (escorted_world [other_row, sample_row])))"
    by (simp add: escorted_world_def other_row_def sample_row_def)
  from callback_upserts_account [where OAuth = sample_OAuth and rnd = sample_draws,
      OF 1 2 3 4 5 6 7 8] 1 3 6 7 8
  show ?thesis
    by (simp add: escorted_world_def other_row_def sample_row_def sample_user_def)
qed

subsection \<open>Unsupported platforms\<close>

text \<open>
  Claim C4, as the endpoint behaves. When the platform has no client, the account
  table and the passport cookie are untouched and no exchange is made. The platform is
  looked at only where the client is constructed: with a non-empty code, after the state
  check (a mismatch is answered 401, otherwise the request fails); in the error branch,
  never: the answer is the one the error calls for, as for any platform; in the initiate
  branch, after the escort cookie has been issued, so that the request fails with a new
  escort cookie in the jar.
\<close>

theorem unsupported_platform_effects:
  assumes "OAuth (r_platform req) = None"
  shows "db (snd (GET OAuth rnd now req w)) = db w
       \<and> jar (snd (GET OAuth rnd now req w)) ''passport'' = jar w ''passport''
       \<and> (truthy (r_code req) \<longrightarrow>
            fst (GET OAuth rnd now req w) =
              (if \<exists>e s. Token_check now ''escort'' w = Some e \<and> state e = Some s
                        \<and> r_state req = Some s
               then Threw UnsupportedPlatform
               else Responded (Response ''Unauthorized'' 401)))
       \<and> (\<not> truthy (r_code req) \<and> truthy (r_error req) \<longrightarrow>
            fst (GET OAuth rnd now req w) =
              (if r_error req = Some ''access_denied'' then
                 Responded (redirect (case Token_check now ''escort'' w of
                                        None \<Rightarrow> ''/''
                                      | Some e \<Rightarrow> (case referrer e of None \<Rightarrow> ''/'' | Some r \<Rightarrow> r))
                                     302)
               else if r_error req = Some ''redirect_uri_mismatch''
                     \<or> r_error req = Some ''application_suspended''
               then Responded (Response ''Internal Server Error'' 500)
               else Responded (Response ''Unauthorized'' 401)))
       \<and> (truthy (r_code req) \<or> truthy (r_error req) \<longrightarrow>
            trace (snd (GET OAuth rnd now req w)) = trace w @ [Revoke ''escort'']
          \<and> jar (snd (GET OAuth rnd now req w)) ''escort'' = None)
       \<and> (\<not> truthy (r_code req) \<and> \<not> truthy (r_error req) \<longrightarrow>
            fst (GET OAuth rnd now req w) = Threw UnsupportedPlatform
          \<and> jar (snd (GET OAuth rnd now req w)) ''escort'' =
              Some (Sealed \<lparr>state = Some (generateState rnd),
                             code_verifier = Some (generateCodeVerifier rnd),
                             referrer = Some (case r_referer req of None \<Rightarrow> ''/'' | Some r \<Rightarrow> r),
                             visa = None\<rparr> (Some (now + five_minutes)))
          \<and> trace (snd (GET OAuth rnd now req w)) =
              trace w @ [Revoke ''escort'',
                         Issue ''escort''
                           \<lparr>state = Some (generateState rnd),
                            code_verifier = Some (generateCodeVerifier rnd),
                            referrer = Some (case r_referer req of None \<Rightarrow> ''/'' | Some r \<Rightarrow> r),
                            visa = None\<rparr> (Some five_minutes)])"
proof (cases "truthy (r_code req)")
  case True
  show ?thesis
  proof (cases "\<exists>e s. Token_check now ''escort'' w = Some e \<and> state e = Some s
                        \<and> r_state req = Some s")
    case match: True
    then obtain e s where "Token_check now ''escort'' w = Some e" "state e = Some s"
      "r_state req = Some s" by blast
    with True assms match show ?thesis
      unfolding GET_def Let_def
      by (simp add: field_param Token_revoke_def)
  next
    case False
    then have "field (case Token_check now ''escort'' w of None \<Rightarrow> None | Some e \<Rightarrow> state e)
        \<noteq> param (r_state req)"
      by (auto simp: field_param split: option.splits)
    from GET_mismatch [OF True this] True False show ?thesis
      by (simp add: Token_revoke_def)
  qed
next
  case False
  show ?thesis
  proof (cases "truthy (r_error req)")
    case True
    from GET_error [OF False True] False True show ?thesis
      by (simp add: Token_revoke_def)
  next
    case noerr: False
    from GET_initiate [OF False noerr] False noerr assms show ?thesis
      by (simp add: Token_revoke_def Token_issue_def)
  qed
qed

theorem unsupported_platform_effects_witness:
  "sample_OAuth ''myspace'' = None
   \<and> fst (GET sample_OAuth sample_draws 1000 (sample_request\<lparr>r_platform := ''myspace''\<rparr>)
            fresh_world) = Threw UnsupportedPlatform
   \<and> db (snd (GET sample_OAuth sample_draws 1000 (sample_request\<lparr>r_platform := ''myspace''\<rparr>)
            fresh_world)) = []
   \<and> trace (snd (GET sample_OAuth sample_draws 1000 (sample_request\<lparr>r_platform := ''myspace''\<rparr>)
            fresh_world))
       = [Revoke ''escort'',
          Issue ''escort'' \<lparr>state = Some ''s1'', code_verifier = Some ''v1'',
                            referrer = Some ''/notes'', visa = None\<rparr> (Some 300)]
   \<and> fst (GET sample_OAuth sample_draws 1100
            (sample_request\<lparr>r_platform := ''myspace'', r_error := Some ''access_denied''\<rparr>)
            (escorted_world [sample_row])) = Responded (redirect ''/notes'' 302)
   \<and> fst (GET sample_OAuth sample_draws 1100
            (sample_request\<lparr>r_platform := ''myspace'', r_error := Some ''application_suspended''\<rparr>)
            (escorted_world [sample_row])) = Responded (Response ''Internal Server Error'' 500)
   \<and> fst (GET sample_OAuth sample_draws 1100 (callback_request\<lparr>r_platform := ''myspace''\<rparr>)
            (escorted_world [sample_row])) = Threw UnsupportedPlatform
   \<and> trace (snd (GET sample_OAuth sample_draws 1100 (callback_request\<lparr>r_platform := ''myspace''\<rparr>)
            (escorted_world [sample_row]))) = [Revoke ''escort'']
   \<and> db (snd (GET sample_OAuth sample_draws 1100 (callback_request\<lparr>r_platform := ''myspace''\<rparr>)
            (escorted_world [sample_row]))) = [sample_row]
   \<and> fst (GET sample_OAuth sample_draws 1100 (forged_request\<lparr>r_platform := ''myspace''\<rparr>)
            (escorted_world [sample_row])) = Responded (Response ''Unauthorized'' 401)"
proof -
  have a: "sample_OAuth (r_platform (req\<lparr>r_platform := ''myspace''\<rparr>)) = None" for req
    by (simp add: sample_OAuth_def)
  have b1: "sample_OAuth (r_platform (sample_request\<lparr>r_platform := ''myspace'',
      r_error := Some ''access_denied''\<rparr>)) = None"
    by (simp add: sample_OAuth_def)
  have b2: "sample_OAuth (r_platform (sample_request\<lparr>r_platform := ''myspace'',
      r_error := Some ''application_suspended''\<rparr>)) = None"
    by (simp add: sample_OAuth_def)
  have c: "Token_check 1100 ''escort'' (escorted_world [sample_row]) = Some sample_escort"
    by (simp add: Token_check_def escorted_world_def)
  have d: "sample_OAuth ''myspace'' = None"
    by (simp add: sample_OAuth_def)
  note i = unsupported_platform_effects [where OAuth = sample_OAuth and rnd = sample_draws
      and now = 1000 and w = fresh_world, OF a [of sample_request]]
  note e1 = unsupported_platform_effects [where OAuth = sample_OAuth and rnd = sample_draws
      and now = 1100 and w = "escorted_world [sample_row]",
      OF b1]
  note e2 = unsupported_platform_effects [where OAuth = sample_OAuth and rnd = sample_draws
      and now = 1100 and w = "escorted_world [sample_row]",
      OF b2]
  note k = unsupported_platform_effects [where OAuth = sample_OAuth and rnd = sample_draws
      and now = 1100 and w = "escorted_world [sample_row]", OF a [of callback_request]]
  note f = unsupported_platform_effects [where OAuth = sample_OAuth and rnd = sample_draws
      and now = 1100 and w = "escorted_world [sample_row]", OF a [of forged_request]]
  have 1: "fst (GET sample_OAuth sample_draws 1000 (sample_request\<lparr>r_platform := ''myspace''\<rparr>)
            fresh_world) = Threw UnsupportedPlatform
     \<and> db (snd (GET sample_OAuth sample_draws 1000 (sample_request\<lparr>r_platform := ''myspace''\<rparr>)
            fresh_world)) = []
     \<and> trace (snd (GET sample_OAuth sample_draws 1000 (sample_request\<lparr>r_platform := ''myspace''\<rparr>)
            fresh_world))
       = [Revoke ''escort'',
          Issue ''escort'' \<lparr>state = Some ''s1'', code_verifier = Some ''v1'',
                            referrer = Some ''/notes'', visa = None\<rparr> (Some 300)]"
    using i by (simp add: fresh_world_def sample_draws_def sample_request_def five_minutes_def
        truthy_def)
  have 2: "fst (GET sample_OAuth sample_draws 1100
            (sample_request\<lparr>r_platform := ''myspace'', r_error := Some ''access_denied''\<rparr>)
            (escorted_world [sample_row])) = Responded (redirect ''/notes'' 302)"
    using e1 c by (simp add: sample_request_def sample_escort_def truthy_def)
  have 3: "fst (GET sample_OAuth sample_draws 1100
            (sample_request\<lparr>r_platform := ''myspace'', r_error := Some ''application_suspended''\<rparr>)
            (escorted_world [sample_row])) = Responded (Response ''Internal Server Error'' 500)"
    using e2 by (simp add: sample_request_def truthy_def)
  have 4: "fst (GET sample_OAuth sample_draws 1100 (callback_request\<lparr>r_platform := ''myspace''\<rparr>)
            (escorted_world [sample_row])) = Threw UnsupportedPlatform
     \<and> trace (snd (GET sample_OAuth sample_draws 1100 (callback_request\<lparr>r_platform := ''myspace''\<rparr>)
            (escorted_world [sample_row]))) = [Revoke ''escort'']
     \<and> db (snd (GET sample_OAuth sample_draws 1100 (callback_request\<lparr>r_platform := ''myspace''\<rparr>)
            (escorted_world [sample_row]))) = [sample_row]"
    using k c
    by (simp add: callback_request_def sample_request_def sample_escort_def truthy_def
        escorted_world_def)
  have 5: "fst (GET sample_OAuth sample_draws 1100 (forged_request\<lparr>r_platform := ''myspace''\<rparr>)
            (escorted_world [sample_row])) = Responded (Response ''Unauthorized'' 401)"
    using f c by (simp add: forged_request_def sample_request_def sample_escort_def truthy_def)
  from d 1 2 3 4 5 show ?thesis by simp
qed

text \<open>
  An initiate request for the platform \<open>''myspace''\<close>, which has no client: the request
  fails, and the jar, empty before, holds an escort cookie.
\<close>

theorem unsupported_platform_escort_issued:
  "sample_OAuth ''myspace'' = None
   \<and> fst (GET sample_OAuth sample_draws 1000 (sample_request\<lparr>r_platform := ''myspace''\<rparr>)
            fresh_world) = Threw UnsupportedPlatform
   \<and> jar fresh_world ''escort'' = None
   \<and> jar (snd (GET sample_OAuth sample_draws 1000 (sample_request\<lparr>r_platform := ''myspace''\<rparr>)
            fresh_world)) ''escort''
       = Some (Sealed \<lparr>state = Some ''s1'', code_verifier = Some ''v1'',
                       referrer = Some ''/notes'', visa = None\<rparr> (Some 1300))"
  by (simp add: GET_eval sample_defs)

subsection \<open>Provider errors\<close>

text \<open>
  Claim C5. With no code (or an empty one) and an \<^verbatim>\<open>error\<close> parameter:
  \<^verbatim>\<open>access_denied\<close> is answered by a 302 redirect to the referrer of the escort token,
  or to \<open>''/''\<close> when there is no token or no referrer in it;
  \<^verbatim>\<open>redirect_uri_mismatch\<close> and \<^verbatim>\<open>application_suspended\<close> by 500; any other non-empty
  value by 401. The only effect is the revocation of the escort cookie.
\<close>

theorem error_callback_responses:
  assumes "\<not> truthy (r_code req)" and "r_error req = Some err"
  shows "(err = ''access_denied'' \<longrightarrow>
            fst (GET OAuth rnd now req w) =
              Responded (redirect (case Token_check now ''escort'' w of
                                     None \<Rightarrow> ''/''
                                   | Some e \<Rightarrow> (case referrer e of None \<Rightarrow> ''/'' | Some r \<Rightarrow> r))
                                  302))
       \<and> (err = ''redirect_uri_mismatch'' \<or> err = ''application_suspended'' \<longrightarrow>
            fst (GET OAuth rnd now req w) = Responded (Response ''Internal Server Error'' 500))
       \<and> (err \<noteq> [] \<and> err \<noteq> ''access_denied'' \<and> err \<noteq> ''redirect_uri_mismatch''
            \<and> err \<noteq> ''application_suspended'' \<longrightarrow>
            fst (GET OAuth rnd now req w) = Responded (Response ''Unauthorized'' 401))
       \<and> (err \<noteq> [] \<longrightarrow> snd (GET OAuth rnd now req w) = Token_revoke ''escort'' w)"
proof (cases "err = []")
  case True
  then show ?thesis by simp
next
  case False
  with assms(2) have "truthy (r_error req)" by (simp add: truthy_def)
  from GET_error [OF assms(1) this] assms(2) show ?thesis by auto
qed

theorem error_callback_responses_witness:
  "\<not> truthy (r_code (sample_request\<lparr>r_error := Some ''access_denied''\<rparr>))
   \<and> Token_check 1100 ''escort'' (escorted_world []) = Some sample_escort
   \<and> fst (GET sample_OAuth sample_draws 1100 (sample_request\<lparr>r_error := Some ''access_denied''\<rparr>)
            (escorted_world [])) = Responded (redirect ''/notes'' 302)
   \<and> fst (GET sample_OAuth sample_draws 1100 (sample_request\<lparr>r_error := Some ''access_denied''\<rparr>)
            fresh_world) = Responded (redirect ''/'' 302)
   \<and> fst (GET sample_OAuth sample_draws 1100
            (sample_request\<lparr>r_error := Some ''application_suspended''\<rparr>) fresh_world)
       = Responded (Response ''Internal Server Error'' 500)
   \<and> fst (GET sample_OAuth sample_draws 1100
            (sample_request\<lparr>r_error := Some ''server_error''\<rparr>) fresh_world)
       = Responded (Response ''Unauthorized'' 401)"
proof -
  have c: "\<not> truthy (r_code (sample_request\<lparr>r_error := Some e\<rparr>))" for e
    by (simp add: sample_request_def truthy_def)
  have t: "Token_check 1100 ''escort'' (escorted_world []) = Some sample_escort"
    "Token_check 1100 ''escort'' fresh_world = None"
    by (simp_all add: Token_check_def escorted_world_def fresh_world_def)
  have r: "referrer sample_escort = Some ''/notes''" by (simp add: sample_escort_def)
  from error_callback_responses
      [where req = "sample_request\<lparr>r_error := Some ''access_denied''\<rparr>" and err = "''access_denied''"
        and OAuth = sample_OAuth and rnd = sample_draws and now = 1100 and w = "escorted_world []"]
    error_callback_responses
      [where req = "sample_request\<lparr>r_error := Some ''access_denied''\<rparr>" and err = "''access_denied''"
        and OAuth = sample_OAuth and rnd = sample_draws and now = 1100 and w = "fresh_world"]
    error_callback_responses
      [where req = "sample_request\<lparr>r_error := Some ''application_suspended''\<rparr>" and err = "''application_suspended''"
        and OAuth = sample_OAuth and rnd = sample_draws and now = 1100 and w = "fresh_world"]
    error_callback_responses
      [where req = "sample_request\<lparr>r_error := Some ''server_error''\<rparr>" and err = "''server_error''"
        and OAuth = sample_OAuth and rnd = sample_draws and now = 1100 and w = "fresh_world"]
    c t r
  show ?thesis by simp
qed

subsection \<open>Successful callback\<close>

text \<open>
  Claim C6. When the code is non-empty, the escort token is valid and its state is the
  \<^verbatim>\<open>state\<close> parameter, and the exchange returns an account, the response is a 302
  redirect to the referrer held by the escort token, or to \<open>''/''\<close> if it holds none,
  and the passport cookie carries as \<^verbatim>\<open>visa\<close> the \<^verbatim>\<open>ID\<close> of a row of the resulting
  table whose pair is that of the returned account.
\<close>

theorem callback_success_redirect_passport:
  assumes "r_code req = Some c" "c \<noteq> []"
    and "Token_check now ''escort'' w = Some e" "state e = Some s" "r_state req = Some s"
    and "OAuth (r_platform req) = Some cl"
    and "validate cl c (code_verifier e) = Some user"
  shows "fst (GET OAuth rnd now req w)
           = Responded (redirect (case referrer e of None \<Rightarrow> ''/'' | Some r \<Rightarrow> r) 302)
       \<and> (\<exists>r. r \<in> set (db (snd (GET OAuth rnd now req w)))
              \<and> platform r = platform user \<and> account r = account user
              \<and> jar (snd (GET OAuth rnd now req w)) ''passport''
                  = Some (Sealed \<lparr>state = None, code_verifier = None, referrer = None,
                                  visa = Some (ID r)\<rparr> None))"
proof -
  let ?x = "\<lparr>platform = platform user, account = account user,
                     refresh = refresh user, access = access user,
                     expire = expire user, handle = handle user,
                     name = name user, description = description user,
                     image' = image' user, ID = random16 rnd\<rparr>"
  obtain rows drifter where u: "upsert (db w) ?x = (rows, drifter)"
    by (cases "upsert (db w) ?x")
  note g = GET_success [where OAuth = OAuth, OF assms u]
  from upsert_hit [of "db w" ?x] u
  have "drifter \<in> set rows \<and> platform drifter = platform user \<and> account drifter = account user"
    by simp
  with g show ?thesis by auto
qed

theorem callback_success_redirect_passport_witness:
  "r_code callback_request = Some ''good''
   \<and> Token_check 1100 ''escort'' (escorted_world [other_row]) = Some sample_escort
   \<and> sample_OAuth (r_platform callback_request) = Some sample_client
   \<and> validate sample_client ''good'' (code_verifier sample_escort) = Some sample_user
   \<and> fst (GET sample_OAuth sample_draws 1100 callback_request (escorted_world [other_row]))
       = Responded (redirect ''/notes'' 302)
   \<and> jar (snd (GET sample_OAuth sample_draws 1100 callback_request (escorted_world [other_row])))
        ''passport''
       = Some (Sealed \<lparr>state = None, code_verifier = None, referrer = None,
                       visa = Some ''id-new''\<rparr> None)
   \<and> map ID (db (snd (GET sample_OAuth sample_draws 1100 callback_request
                        (escorted_world [other_row]))))
       = [''id-bob'', ''id-new'']"
proof -
  have 1: "r_code callback_request = Some ''good''"
    by (simp add: callback_request_def sample_request_def)
  have 2: "''good'' \<noteq> []" by simp
  have 3: "Token_check 1100 ''escort'' (escorted_world [other_row]) = Some sample_escort"
    by (simp add: Token_check_def escorted_world_def)
  have 4: "state sample_escort = Some ''s1''" by (simp add: sample_escort_def)
  have 5: "r_state callback_request = Some ''s1''"
    by (simp add: callback_request_def sample_request_def)
  have 6: "sample_OAuth (r_platform callback_request) = Some sample_client"
    by (simp add: callback_request_def sample_request_def sample_OAuth_def)
  have 7: "validate sample_client ''good'' (code_verifier sample_escort) = Some sample_user"
    by (simp add: sample_client_def sample_escort_def)
  have p: "jar (snd (GET sample_OAuth sample_draws 1100 callback_request (escorted_world [other_row])))
        ''passport''
       = Some (Sealed \<lparr>state = None, code_verifier = None, referrer = None,
                       visa = Some ''id-new''\<rparr> None)"
    by (simp add: GET_eval sample_defs)
  have d: "map ID (db (snd (GET sample_OAuth sample_draws 1100 callback_request
                        (escorted_world [other_row]))))
       = [''id-bob'', ''id-new'']"
    by (simp add: GET_eval sample_defs)
  from callback_success_redirect_passport [where OAuth = sample_OAuth and rnd = sample_draws,
      OF 1 2 3 4 5 6 7] 1 3 6 7 p d
  show ?thesis
    by (simp add: sample_escort_def)
qed

text \<open>
  The referrer held by the escort token is the one captured at initiation: a callback
  that arrives within five minutes of the initiate request, with the state drawn there,
  is redirected to the \<^verbatim>\<open>Referer\<close> of the initiate request, or to \<open>''/''\<close> if it had
  none.
\<close>

lemma initiate_then_callback:
  assumes "\<not> truthy (r_code req0)" "\<not> truthy (r_error req0)"
    and "r_code req1 = Some c" "c \<noteq> []" "r_state req1 = Some (generateState rnd0)"
    and "t1 < t0 + 5 * 60"
    and "OAuth (r_platform req1) = Some cl"
    and "validate cl c (Some (generateCodeVerifier rnd0)) = Some user"
  shows "fst (GET OAuth rnd1 t1 req1 (snd (GET OAuth rnd0 t0 req0 w)))
           = Responded (redirect (case r_referer req0 of None \<Rightarrow> ''/'' | Some r \<Rightarrow> r) 302)"
proof -
  let ?p = "\<lparr>state = Some (generateState rnd0),
             code_verifier = Some (generateCodeVerifier rnd0),
             referrer = Some (case r_referer req0 of None \<Rightarrow> ''/'' | Some r \<Rightarrow> r),
             visa = None\<rparr>"
  let ?w = "snd (GET OAuth rnd0 t0 req0 w)"
  let ?x = "\<lparr>platform = platform user, account = account user,
             refresh = refresh user, access = access user,
             expire = expire user, handle = handle user,
             name = name user, description = description user,
             image' = image' user, ID = random16 rnd1\<rparr>"
  have "?w = Token_issue t0 ''escort'' ?p (Some five_minutes) (Token_revoke ''escort'' w)"
    by (simp add: GET_initiate [OF assms(1,2)])
  with assms(6) have c: "Token_check t1 ''escort'' ?w = Some ?p"
    by (simp add: Token_check_issue five_minutes_def)
  have s: "state ?p = Some (generateState rnd0)" by simp
  have v: "validate cl c (code_verifier ?p) = Some user"
    using assms(8) by simp
  obtain rows drifter where u: "upsert (db ?w) ?x = (rows, drifter)"
    by (cases "upsert (db ?w) ?x")
  from GET_success [where OAuth = OAuth, OF assms(3,4) c s assms(5,7) v u]
  show ?thesis by simp
qed

subsection \<open>Initiation\<close>






subsection \<open>Precedence of the code\<close>

text \<open>
  Claim C8, for a \<^verbatim>\<open>code\<close> parameter that is not empty. The outcome and every effect
  of a request with a non-empty code are those of the same request without an
  \<^verbatim>\<open>error\<close> parameter: the error is ignored.
\<close>

theorem code_precedes_error:
  assumes "truthy (r_code req)"
  shows "GET OAuth rnd now (req\<lparr>r_error := err\<rparr>) w = GET OAuth rnd now (req\<lparr>r_error := None\<rparr>) w"
  using assms unfolding GET_def Let_def
  by (simp add: case_prod_beta split: option.splits)

theorem code_precedes_error_witness:
  "truthy (r_code callback_request)
   \<and> fst (GET sample_OAuth sample_draws 1100 (callback_request\<lparr>r_error := Some ''access_denied''\<rparr>)
            (escorted_world []))
       = Responded (redirect ''/notes'' 302)
   \<and> jar (snd (GET sample_OAuth sample_draws 1100
                 (callback_request\<lparr>r_error := Some ''access_denied''\<rparr>) (escorted_world [])))
        ''passport''
       = Some (Sealed \<lparr>state = None, code_verifier = None, referrer = None,
                       visa = Some ''id-new''\<rparr> None)"
proof -
  have t: "truthy (r_code callback_request)"
    by (simp add: callback_request_def sample_request_def truthy_def)
  have n: "callback_request\<lparr>r_error := None\<rparr> = callback_request"
    by (simp add: callback_request_def sample_request_def)
  have f: "fst (GET sample_OAuth sample_draws 1100 callback_request (escorted_world []))
       = Responded (redirect ''/notes'' 302)"
    by (simp add: GET_eval sample_defs)
  have p: "jar (snd (GET sample_OAuth sample_draws 1100 callback_request (escorted_world [])))
        ''passport''
       = Some (Sealed \<lparr>state = None, code_verifier = None, referrer = None,
                       visa = Some ''id-new''\<rparr> None)"
    by (simp add: GET_eval sample_defs)
  from code_precedes_error [OF t, of sample_OAuth sample_draws 1100 "Some ''access_denied''"
      "escorted_world []"] t f p
  show ?thesis by (simp add: n)
qed

text \<open>
  Two requests with an empty \<^verbatim>\<open>code\<close> parameter and an \<^verbatim>\<open>error\<close> parameter: the
  error branch runs, and the response follows the error.
\<close>

theorem empty_code_error_not_ignored:
  "r_code (empty_code_request\<lparr>r_error := Some ''access_denied''\<rparr>) = Some []
   \<and> r_code (empty_code_request\<lparr>r_error := Some ''application_suspended''\<rparr>) = Some []
   \<and> fst (GET sample_OAuth sample_draws 1000
            (empty_code_request\<lparr>r_error := Some ''access_denied''\<rparr>) fresh_world)
       = Responded (redirect ''/'' 302)
   \<and> fst (GET sample_OAuth sample_draws 1000
            (empty_code_request\<lparr>r_error := Some ''application_suspended''\<rparr>) fresh_world)
       = Responded (Response ''Internal Server Error'' 500)
   \<and> trace (snd (GET sample_OAuth sample_draws 1000
            (empty_code_request\<lparr>r_error := Some ''access_denied''\<rparr>) fresh_world))
       = [Revoke ''escort'']"
  by (simp add: GET_eval sample_defs)

section \<open>Properties of the figure plugin\<close>





text \<open>
  White space is that of the language, beyond ASCII: a text node holding a no-break
  space, a line separator and a space is blank.
\<close>

lemma blank_beyond_ascii: "blank (Text [0x00A0, 0x2028, 0x0020])"
  by (simp add: is_space_def)




end
